theory Spec2Isabelle
  imports Complex_Main
begin

section \<open>Motor efficiency calculator: data model\<close>

text \<open>
  The computational core of \<^verbatim>\<open>unified_calculator.py\<close> and
  \<^verbatim>\<open>factor_calculator.py\<close>. Python floats are idealised as real numbers. The one
  non-finite float the code tests for, NaN, is the value \<open>None\<close> of a cell: a cell is
  what \<^verbatim>\<open>pd.to_numeric(..., errors='coerce')\<close> makes of a raw CSV field. Infinities are
  not represented, so statements about decoded currents assume \<open>reference_v \<noteq> 0\<close>
  (numpy divides by zero without raising and yields an infinity or NaN there). The
  Python-level division \<^verbatim>\<open>1.0 / sampling_freq\<close> does raise at zero, and that branch
  is in the model.
\<close>

type_synonym cell = "real option"

text \<open>
  A DataFrame as returned by \<^verbatim>\<open>pd.read_csv(path, header=None, skiprows=1)\<close>:
  \<open>ncols\<close> is \<^verbatim>\<open>shape[1]\<close>, \<open>rows\<close> the data rows. A field missing from a short
  row reads as NaN, as pandas pads it.
\<close>

record table =
  ncols :: nat
  rows :: "cell list list"

definition empty_df :: "table \<Rightarrow> bool" where
  "empty_df df = (rows df = [] \<or> ncols df = 0)"

definition head_df :: "int \<Rightarrow> table \<Rightarrow> table" where
  "head_df n df = df\<lparr>rows := take (nat n) (rows df)\<rparr>"

text \<open>\<^verbatim>\<open>df.head(points) if points is not None and points > 0 else df\<close>\<close>

definition truncate_df :: "int option \<Rightarrow> table \<Rightarrow> table" where
  "truncate_df points_to_process df =
     (case points_to_process of
        None \<Rightarrow> df
      | Some n \<Rightarrow> if n > 0 then head_df n df else df)"

definition cell_at :: "cell list \<Rightarrow> nat \<Rightarrow> cell" where
  "cell_at r j = (if j < length r then r ! j else None)"

text \<open>\<^verbatim>\<open>pd.to_numeric(df.iloc[:, j], errors='coerce').to_numpy()\<close>\<close>

definition column :: "nat \<Rightarrow> table \<Rightarrow> cell list" where
  "column j df = map (\<lambda>r. cell_at r j) (rows df)"

text \<open>\<^verbatim>\<open>(output_v - initial_v) / reference_v\<close>, elementwise; NaN stays NaN.\<close>

definition decode :: "real \<Rightarrow> real \<Rightarrow> cell list \<Rightarrow> cell list" where
  "decode initial_v reference_v vs = map (map_option (\<lambda>v. (v - initial_v) / reference_v)) vs"

text \<open>\<^verbatim>\<open>np.arange(n) * time_once\<close>\<close>

definition time_array :: "nat \<Rightarrow> real \<Rightarrow> real list" where
  "time_array n time_once = map (\<lambda>k. real k * time_once) [0..<n]"

text \<open>\<^verbatim>\<open>~np.isnan(xs)\<close>\<close>

definition not_nan :: "cell list \<Rightarrow> bool list" where
  "not_nan xs = map (\<lambda>x. x \<noteq> None) xs"

text \<open>\<^verbatim>\<open>np.any(valid_idx)\<close>\<close>

definition np_any :: "bool list \<Rightarrow> bool" where
  "np_any bs = list_ex (\<lambda>b. b) bs"

text \<open>Boolean-mask indexing \<^verbatim>\<open>xs[valid_idx]\<close>.\<close>

definition mask_select :: "bool list \<Rightarrow> 'a list \<Rightarrow> 'a list" where
  "mask_select valid xs = map snd (filter fst (zip valid xs))"

text \<open>The masked values of a float array whose mask excludes every NaN.\<close>

fun cleaned :: "bool list \<Rightarrow> cell list \<Rightarrow> real list" where
  "cleaned (b # bs) (Some x # xs) = (if b then x # cleaned bs xs else cleaned bs xs)"
| "cleaned (b # bs) (None # xs) = cleaned bs xs"
| "cleaned _ _ = []"

text \<open>\<^verbatim>\<open>np.trapz(y, x=x)\<close>: the sum of \<open>(x[k+1] - x[k]) * (y[k+1] + y[k]) / 2\<close>.\<close>

fun trapz :: "real list \<Rightarrow> real list \<Rightarrow> real" where
  "trapz (y0 # y1 # ys) (x0 # x1 # xs) =
     (x1 - x0) * (y1 + y0) / 2 + trapz (y1 # ys) (x1 # xs)"
| "trapz _ _ = 0"

definition np_mean :: "real list \<Rightarrow> real" where
  "np_mean xs = sum_list xs / real (length xs)"

fun np_max :: "real list \<Rightarrow> real" where
  "np_max [] = 0"
| "np_max (x # xs) = fold max xs x"

fun np_min :: "real list \<Rightarrow> real" where
  "np_min [] = 0"
| "np_min (x # xs) = fold min xs x"

text \<open>\<^verbatim>\<open>output_i_cleaned**2 * r_load\<close>\<close>

definition output_power_of :: "real \<Rightarrow> real list \<Rightarrow> real list" where
  "output_power_of r_load output_i = map (\<lambda>i. i\<^sup>2 * r_load) output_i"

section \<open>calculate\_simple\_efficiency (unified\_calculator.py)\<close>

record plot_data =
  pd_time :: "real list"
  pd_current :: "real list"
  pd_power :: "real list"

record simple_result =
  efficiency :: real
  avg_output_power :: real
  max_output_power :: real
  output_energy :: real
  input_energy :: real
  duration :: real
  plot :: plot_data

text \<open>
  The argument \<open>read\<close> is the outcome of \<^verbatim>\<open>pd.read_csv\<close>: \<open>None\<close> when it raises
  (missing file, no data, parse error), which the enclosing \<^verbatim>\<open>try\<close> turns into the
  result \<open>None\<close>. Every \<^verbatim>\<open>return None\<close> of the source is a \<open>None\<close> branch here, in the
  source's order.
\<close>

definition calculate_simple_efficiency ::
  "table option \<Rightarrow> real \<Rightarrow> real \<Rightarrow> real \<Rightarrow> real \<Rightarrow> real \<Rightarrow> int option \<Rightarrow> simple_result option"
where
  "calculate_simple_efficiency read reference_v initial_v r_load power_input sampling_freq
       points_to_process =
     (if sampling_freq = 0 then None
      else let time_once = 1 / sampling_freq in
        case read of
          None \<Rightarrow> None
        | Some data_df_full \<Rightarrow>
            let data_df = truncate_df points_to_process data_df_full in
            if empty_df data_df \<or> ncols data_df < 3 then None
            else
              let t_original = column 0 data_df;
                  time_axis = time_array (length t_original) time_once;
                  output_v = column 2 data_df;
                  output_i = decode initial_v reference_v output_v;
                  valid_idx = not_nan output_i
              in if \<not> np_any valid_idx then None
                 else
                   let output_i_cleaned = cleaned valid_idx output_i;
                       time_cleaned = mask_select valid_idx time_axis
                   in if length output_i_cleaned < 2 then None
                      else
                        let output_power = output_power_of r_load output_i_cleaned;
                            out_energy = trapz output_power time_cleaned;
                            input_duration = real (length time_cleaned) * time_once;
                            in_energy = power_input * input_duration;
                            eff = (if in_energy > 0 then out_energy / in_energy else 0)
                        in Some \<lparr>efficiency = eff,
                                 avg_output_power = np_mean output_power,
                                 max_output_power = np_max output_power,
                                 output_energy = out_energy,
                                 input_energy = in_energy,
                                 duration = input_duration,
                                 plot = \<lparr>pd_time = time_cleaned,
                                          pd_current = output_i_cleaned,
                                          pd_power = output_power\<rparr>\<rparr>)"

section \<open>calculate\_single\_efficiency (factor\_calculator.py)\<close>

record single_result =
  s_efficiency :: real
  s_avg_output_power :: real
  s_max_output_power :: real
  s_avg_output_current :: real
  s_duration :: real
  s_plot :: plot_data

text \<open>
  Here the \<^verbatim>\<open>read_csv\<close> call comes first, the two \<^verbatim>\<open>raise ValueError\<close> are caught
  by the function's own \<^verbatim>\<open>except\<close> and give \<open>None\<close>, and there is no check for
  fewer than two samples.
\<close>

definition calculate_single_efficiency ::
  "table option \<Rightarrow> real \<Rightarrow> real \<Rightarrow> real \<Rightarrow> real \<Rightarrow> real \<Rightarrow> int option \<Rightarrow> single_result option"
where
  "calculate_single_efficiency read reference_v initial_v r_load power_input sampling_freq
       points_to_process =
     (case read of
        None \<Rightarrow> None
      | Some data_df_full \<Rightarrow>
          let data_df = truncate_df points_to_process data_df_full in
          if empty_df data_df \<or> ncols data_df < 3 then None
          else if sampling_freq = 0 then None
          else
            let time_once = 1 / sampling_freq;
                time_axis = time_array (length (rows data_df)) time_once;
                output_v = column 2 data_df;
                output_i = decode initial_v reference_v output_v;
                valid_idx = not_nan output_i
            in if \<not> np_any valid_idx then None
               else
                 let output_i_cleaned = cleaned valid_idx output_i;
                     time_cleaned = mask_select valid_idx time_axis;
                     output_power = output_power_of r_load output_i_cleaned;
                     out_energy = trapz output_power time_cleaned;
                     in_energy = power_input * (real (length time_cleaned) * time_once);
                     eff = (if in_energy > 0 then out_energy / in_energy else 0)
                 in Some \<lparr>s_efficiency = eff,
                          s_avg_output_power = np_mean output_power,
                          s_max_output_power = np_max output_power,
                          s_avg_output_current = np_mean output_i_cleaned,
                          s_duration = real (length time_cleaned) * time_once,
                          s_plot = \<lparr>pd_time = time_cleaned,
                                     pd_current = output_i_cleaned,
                                     pd_power = output_power\<rparr>\<rparr>)"

section \<open>compare\_dual\_motor\_efficiencies and the combiner\<close>

text \<open>
  The three lines that both \<^verbatim>\<open>calculate_unified_efficiencies\<close> and
  \<^verbatim>\<open>compare_dual_motor_efficiencies\<close> apply to the forward and reverse efficiencies:
  \<^verbatim>\<open>(max(0, zheng_eff) * max(0, fan_eff)) ** 0.5\<close>.
\<close>

definition combine :: "real \<Rightarrow> real \<Rightarrow> real" where
  "combine zheng_eff fan_eff = (max 0 zheng_eff * max 0 fan_eff) powr (1 / 2)"

definition compare_dual_motor_efficiencies ::
  "table option \<Rightarrow> table option \<Rightarrow> real \<Rightarrow> real \<Rightarrow> real \<Rightarrow> real \<Rightarrow> real \<Rightarrow> real"
where
  "compare_dual_motor_efficiencies zheng_read fan_read reference_v initial_v r_load
       power_input sampling_freq =
     (case (calculate_single_efficiency zheng_read reference_v initial_v r_load power_input
              sampling_freq None,
            calculate_single_efficiency fan_read reference_v initial_v r_load power_input
              sampling_freq None) of
        (Some zheng_result, Some fan_result) \<Rightarrow>
          combine (s_efficiency zheng_result) (s_efficiency fan_result)
      | _ \<Rightarrow> 0)"

section \<open>calculate\_unified\_efficiencies\<close>

record col_stats =
  st_max :: cell
  st_min :: cell
  st_avg :: cell

definition nan_stats :: col_stats where
  "nan_stats = \<lparr>st_max = None, st_min = None, st_avg = None\<rparr>"

text \<open>\<^verbatim>\<open>_calculate_column_stats\<close>: pandas skips NaN in max, min and mean.\<close>

definition calculate_column_stats :: "cell list \<Rightarrow> col_stats" where
  "calculate_column_stats col =
     (let numeric = cleaned (not_nan col) col in
      if numeric = [] then nan_stats
      else \<lparr>st_max = Some (np_max numeric), st_min = Some (np_min numeric),
            st_avg = Some (np_mean numeric)\<rparr>)"

type_synonym stats = "string \<rightharpoonup> col_stats"

record theo_plot_data =
  tp_time :: "real list"
  tp_output_current :: "real list"
  tp_input_current :: "real list"
  tp_output_power :: "real list"
  tp_input_power :: "real list"

record ver_entry =
  v_efficiency :: real
  v_stats :: stats
  v_plot_data :: plot_data

record theo_entry =
  t_efficiency :: real
  t_stats :: stats
  t_plot_data :: theo_plot_data

record ver_block =
  v_zheng :: ver_entry
  v_fan :: ver_entry
  v_finished_efficiency :: real

record theo_block =
  t_zheng :: theo_entry
  t_fan :: theo_entry
  t_finished_efficiency :: real

record comparison_block =
  zheng_diff :: real
  fan_diff :: real
  finished_diff :: real

record results =
  verification :: ver_block
  theoretical :: theo_block
  comparison :: comparison_block

text \<open>The zero-initialised entries of the \<^verbatim>\<open>results\<close> dictionary.\<close>

definition default_ver_entry :: ver_entry where
  "default_ver_entry =
     \<lparr>v_efficiency = 0, v_stats = Map.empty,
      v_plot_data = \<lparr>pd_time = [], pd_current = [], pd_power = []\<rparr>\<rparr>"

definition default_theo_entry :: theo_entry where
  "default_theo_entry =
     \<lparr>t_efficiency = 0, t_stats = Map.empty,
      t_plot_data = \<lparr>tp_time = [], tp_output_current = [], tp_input_current = [],
                     tp_output_power = [], tp_input_power = []\<rparr>\<rparr>"

definition initial_results :: results where
  "initial_results =
     \<lparr>verification = \<lparr>v_zheng = default_ver_entry, v_fan = default_ver_entry,
                       v_finished_efficiency = 0\<rparr>,
      theoretical = \<lparr>t_zheng = default_theo_entry, t_fan = default_theo_entry,
                      t_finished_efficiency = 0\<rparr>,
      comparison = \<lparr>zheng_diff = 0, fan_diff = 0, finished_diff = 0\<rparr>\<rparr>"

definition channel_names :: "string list" where
  "channel_names = [''AIN1'', ''AIN2'', ''AIN3'', ''AIN4'', ''AIN5'', ''AIN6'', ''AIN7'', ''AIN8'']"

text \<open>The loop \<^verbatim>\<open>for i, channel in enumerate(channel_names)\<close> filling one stats dictionary.\<close>

fun fill_stats :: "table \<Rightarrow> nat \<Rightarrow> string list \<Rightarrow> stats \<Rightarrow> stats" where
  "fill_stats df i [] st = st"
| "fill_stats df i (channel # cs) st =
     fill_stats df (i + 1) cs
       (st(channel \<mapsto> (if ncols df > i + 1 then calculate_column_stats (column (i + 1) df)
                         else nan_stats)))"

text \<open>
  The verification block for one polarity (source lines 173-199 for zheng and, with the
  variables renamed, 252-274 for fan): the entry is changed only when the table has
  more than two columns and at least two valid samples, and its efficiency only when
  the input energy is positive.
\<close>

definition verification_pass ::
  "table \<Rightarrow> real list \<Rightarrow> real \<Rightarrow> real \<Rightarrow> real \<Rightarrow> real \<Rightarrow> real \<Rightarrow> ver_entry \<Rightarrow> ver_entry"
where
  "verification_pass df time_axis time_once reference_v initial_v r_load power_input entry =
     (if ncols df > 2 then
        let output_i_verification = decode initial_v reference_v (column 2 df);
            valid_idx_ver = not_nan output_i_verification
        in if np_any valid_idx_ver then
             let output_i_ver_cleaned = cleaned valid_idx_ver output_i_verification;
                 time_ver_cleaned = mask_select valid_idx_ver time_axis
             in if length output_i_ver_cleaned \<ge> 2 then
                  let output_power_ver = output_power_of r_load output_i_ver_cleaned;
                      entry1 = entry\<lparr>v_plot_data :=
                                 \<lparr>pd_time = time_ver_cleaned,
                                  pd_current = output_i_ver_cleaned,
                                  pd_power = output_power_ver\<rparr>\<rparr>;
                      out_energy = trapz output_power_ver time_ver_cleaned;
                      input_duration = real (length time_ver_cleaned) * time_once;
                      in_energy = power_input * input_duration
                  in if in_energy > 0 then entry1\<lparr>v_efficiency := out_energy / in_energy\<rparr>
                     else entry1
                else entry
           else entry
      else entry)"

text \<open>
  The theoretical block for one polarity (source lines 202-230 and 276-304): output
  current from column 6, input current from column 7, both kept where both are valid.
\<close>

definition theoretical_pass ::
  "table \<Rightarrow> real list \<Rightarrow> real \<Rightarrow> real \<Rightarrow> real \<Rightarrow> real \<Rightarrow> theo_entry \<Rightarrow> theo_entry"
where
  "theoretical_pass df time_axis reference_v initial_v r_load drive_v entry =
     (if ncols df > 7 then
        let output_i_theoretical = decode initial_v reference_v (column 6 df);
            input_i_theoretical = decode initial_v reference_v (column 7 df);
            valid_idx_theo = map2 (\<and>) (not_nan output_i_theoretical)
                                         (not_nan input_i_theoretical)
        in if np_any valid_idx_theo then
             let output_i_theo_cleaned = cleaned valid_idx_theo output_i_theoretical;
                 input_i_theo_cleaned = cleaned valid_idx_theo input_i_theoretical;
                 time_theo_cleaned = mask_select valid_idx_theo time_axis
             in if length output_i_theo_cleaned \<ge> 2 then
                  let output_power_theo = output_power_of r_load output_i_theo_cleaned;
                      input_power_theo = map (\<lambda>i. drive_v * i) input_i_theo_cleaned;
                      entry1 = entry\<lparr>t_plot_data :=
                                 \<lparr>tp_time = time_theo_cleaned,
                                  tp_output_current = output_i_theo_cleaned,
                                  tp_input_current = input_i_theo_cleaned,
                                  tp_output_power = output_power_theo,
                                  tp_input_power = input_power_theo\<rparr>\<rparr>;
                      numerator = trapz output_power_theo time_theo_cleaned;
                      denominator = trapz input_power_theo time_theo_cleaned
                  in if denominator > 0 then entry1\<lparr>t_efficiency := numerator / denominator\<rparr>
                     else entry1
                else entry
           else entry
      else entry)"

text \<open>
  Everything the source does with one non-empty polarity table: the channel statistics,
  the reconstructed time axis (as long as column 0, whose values are not used), then
  both methodologies.
\<close>

definition polarity_pass ::
  "table \<Rightarrow> real \<Rightarrow> real \<Rightarrow> real \<Rightarrow> real \<Rightarrow> real \<Rightarrow> real \<Rightarrow>
   ver_entry \<times> theo_entry \<Rightarrow> ver_entry \<times> theo_entry"
where
  "polarity_pass df time_once reference_v initial_v r_load drive_v power_input entries =
     (case entries of (ver, theo) \<Rightarrow>
        let ver1 = ver\<lparr>v_stats := fill_stats df 0 channel_names (v_stats ver)\<rparr>;
            theo1 = theo\<lparr>t_stats := fill_stats df 0 channel_names (t_stats theo)\<rparr>;
            t_original = (if ncols df > 0 then column 0 df else []);
            time_axis = time_array (length t_original) time_once
        in (verification_pass df time_axis time_once reference_v initial_v r_load power_input ver1,
            theoretical_pass df time_axis reference_v initial_v r_load drive_v theo1))"

text \<open>
  Source lines 307-327: the combined efficiencies, the rewritten theoretical
  efficiencies, and the differences. The theoretical values pass through a percentage
  (\<open>* 100\<close>) and back.
\<close>

definition finish_results :: "results \<Rightarrow> results" where
  "finish_results res =
     (let ver = verification res; theo = theoretical res;
          ver_finished = combine (v_efficiency (v_zheng ver)) (v_efficiency (v_fan ver));
          theo_zheng_raw = t_efficiency (t_zheng theo);
          theo_fan_raw = t_efficiency (t_fan theo);
          theo_zheng_processed = (max 0 theo_zheng_raw) powr (1 / 2) * 100;
          theo_fan_processed = (max 0 theo_fan_raw) powr (1 / 2) * 100;
          theo_finished =
            (if theo_zheng_processed \<ge> 0 \<and> theo_fan_processed \<ge> 0
             then ((theo_zheng_processed * theo_fan_processed) / 10000) powr (1 / 2)
             else 0);
          theo_zheng_eff = theo_zheng_processed / 100;
          theo_fan_eff = theo_fan_processed / 100
      in \<lparr>verification = ver\<lparr>v_finished_efficiency := ver_finished\<rparr>,
          theoretical =
            theo\<lparr>t_zheng := (t_zheng theo)\<lparr>t_efficiency := theo_zheng_eff\<rparr>,
                 t_fan := (t_fan theo)\<lparr>t_efficiency := theo_fan_eff\<rparr>,
                 t_finished_efficiency := theo_finished\<rparr>,
          comparison =
            \<lparr>zheng_diff = \<bar>theo_zheng_eff - v_efficiency (v_zheng ver)\<bar>,
             fan_diff = \<bar>theo_fan_eff - v_efficiency (v_fan ver)\<bar>,
             finished_diff = \<bar>theo_finished - ver_finished\<bar>\<rparr>\<rparr>)"

text \<open>
  The whole call. \<open>zheng_read\<close> and \<open>fan_read\<close> are the outcomes of the two
  \<^verbatim>\<open>pd.read_csv\<close> calls (\<open>None\<close> when one raises: every \<^verbatim>\<open>except\<close> clause returns
  \<open>None\<close>). An empty forward table returns \<open>None\<close>; an empty reverse table is skipped.
\<close>

definition calculate_unified_efficiencies ::
  "table option \<Rightarrow> table option \<Rightarrow> real \<Rightarrow> real \<Rightarrow> real \<Rightarrow> real \<Rightarrow> real \<Rightarrow> real \<Rightarrow>
   int option \<Rightarrow> int option \<Rightarrow> results option"
where
  "calculate_unified_efficiencies zheng_read fan_read reference_v initial_v r_load drive_v
       power_input sampling_freq points_to_process_zheng points_to_process_fan =
     (if sampling_freq = 0 then None
      else let time_once = 1 / sampling_freq in
        case zheng_read of
          None \<Rightarrow> None
        | Some data_zheng_df_full \<Rightarrow>
            let data_zheng_df = truncate_df points_to_process_zheng data_zheng_df_full in
            if empty_df data_zheng_df then None
            else
              case polarity_pass data_zheng_df time_once reference_v initial_v r_load drive_v
                     power_input (default_ver_entry, default_theo_entry) of
                (ver_zheng, theo_zheng) \<Rightarrow>
                  (case fan_read of
                     None \<Rightarrow> None
                   | Some data_fan_df_full \<Rightarrow>
                       let data_fan_df = truncate_df points_to_process_fan data_fan_df_full in
                       case (if \<not> empty_df data_fan_df then
                               polarity_pass data_fan_df time_once reference_v initial_v r_load
                                 drive_v power_input (default_ver_entry, default_theo_entry)
                             else (default_ver_entry, default_theo_entry)) of
                         (ver_fan, theo_fan) \<Rightarrow>
                           Some (finish_results
                             \<lparr>verification = \<lparr>v_zheng = ver_zheng, v_fan = ver_fan,
                                               v_finished_efficiency = 0\<rparr>,
                              theoretical = \<lparr>t_zheng = theo_zheng, t_fan = theo_fan,
                                              t_finished_efficiency = 0\<rparr>,
                              comparison =
                                \<lparr>zheng_diff = 0, fan_diff = 0, finished_diff = 0\<rparr>\<rparr>)))"

section \<open>ExperimentConfig.get\_experiment\_params\<close>

datatype error = IndexError

text \<open>
  A Python \<^verbatim>\<open>dict\<close> of parameters is a map from names to values; \<^verbatim>\<open>update\<close> is
  \<open>++\<close>, where the right operand wins on a shared key.
\<close>

type_synonym 'v params = "string \<rightharpoonup> 'v"

record 'v ExperimentConfig =
  exploration_type :: "string option"
  fixed_params :: "'v params"
  variable_params :: "'v params list"
  common_params :: "'v params"
  is_factor_exploration_mode :: bool

text \<open>
  Python list indexing \<^verbatim>\<open>xs[index]\<close> on an \<^verbatim>\<open>int\<close>: a negative index counts from
  the end, and an index outside \<open>-len .. len - 1\<close> raises \<^verbatim>\<open>IndexError\<close>.
\<close>

definition py_getitem :: "'a list \<Rightarrow> int \<Rightarrow> error + 'a" where
  "py_getitem xs index =
     (let n = int (length xs) in
      if 0 \<le> index \<and> index < n then Inr (xs ! nat index)
      else if - n \<le> index \<and> index < 0 then Inr (xs ! nat (n + index))
      else Inl IndexError)"

definition get_experiment_params :: "'v ExperimentConfig \<Rightarrow> int \<Rightarrow> error + 'v params" where
  "get_experiment_params self index =
     (if index \<ge> int (length (variable_params self)) then Inl IndexError
      else
        let params = common_params self;
            params = params ++ fixed_params self
        in case py_getitem (variable_params self) index of
             Inl e \<Rightarrow> Inl e
           | Inr level \<Rightarrow> Inr (params ++ level))"

section \<open>Concrete inputs\<close>

text \<open>
  A configuration with two levels whose layers share the key \<open>r_load\<close>; a table whose
  middle row has an unparseable AIN2 field; a table of ten rows with AIN2 constant.
\<close>

definition example_config :: "real ExperimentConfig" where
  "example_config =
     \<lparr>exploration_type = Some ''voltage'',
      fixed_params = [''r_load'' \<mapsto> 10],
      variable_params = [[''drive_v'' \<mapsto> 6, ''power_input'' \<mapsto> 3],
                         [''drive_v'' \<mapsto> 12, ''r_load'' \<mapsto> 20]],
      common_params = [''reference_v'' \<mapsto> 1, ''r_load'' \<mapsto> 5],
      is_factor_exploration_mode = False\<rparr>"

definition gap_table :: table where
  "gap_table = \<lparr>ncols = 3, rows = [[Some 0, Some 0, Some 1], [Some 1, Some 0, None],
                                    [Some 2, Some 0, Some 1]]\<rparr>"

definition constant_table :: table where
  "constant_table = \<lparr>ncols = 3, rows =
     [[Some 0, Some 0, Some 1], [Some 0, Some 0, Some 1], [Some 0, Some 0, Some 1],
      [Some 0, Some 0, Some 1], [Some 0, Some 0, Some 1], [Some 0, Some 0, Some 1],
      [Some 0, Some 0, Some 1], [Some 0, Some 0, Some 1], [Some 0, Some 0, Some 1],
      [Some 0, Some 0, Some 1]]\<rparr>"

text \<open>The same table with other contents in every column but AIN2.\<close>

definition gap_table_retimed :: table where
  "gap_table_retimed = \<lparr>ncols = 3, rows = [[Some 5, Some 9, Some 1], [None, Some 0, None],
                                            [Some (-4), None, Some 1]]\<rparr>"

text \<open>A table with no rows, and one with a single parseable AIN2 sample.\<close>

definition empty_table :: table where
  "empty_table = \<lparr>ncols = 3, rows = []\<rparr>"

definition one_valid_table :: table where
  "one_valid_table = \<lparr>ncols = 3, rows = [[Some 0, Some 0, Some 1], [Some 1, Some 0, None]]\<rparr>"

section \<open>Properties of the combiner\<close>

lemma combine_sqrt: "combine a b = sqrt (max 0 a * max 0 b)"
  unfolding combine_def by (rule powr_half_sqrt) simp

lemma finish_results_ver_finished:
  "v_finished_efficiency (verification (finish_results res)) =
     combine (v_efficiency (v_zheng (verification res))) (v_efficiency (v_fan (verification res)))"
  by (simp add: finish_results_def Let_def)

lemma finish_results_ver_entries:
  "v_zheng (verification (finish_results res)) = v_zheng (verification res) \<and>
   v_fan (verification (finish_results res)) = v_fan (verification res)"
  by (simp add: finish_results_def Let_def)

text \<open>
  Claim C3. The combiner for the verification methodology is the geometric mean of the
  two efficiencies clamped at zero, \<open>sqrt (max 0 a * max 0 b)\<close>, for all real inputs;
  it is commutative, and \<open>combine a a = a\<close> for every \<open>a \<ge> 0\<close>. The combined
  verification efficiency that \<^verbatim>\<open>calculate_unified_efficiencies\<close> stores is this
  function of the two stored per-polarity efficiencies.
\<close>

theorem combiner_geometric_mean:
  "combine a b = sqrt (max 0 a * max 0 b) \<and>
   combine a b = combine b a \<and>
   (0 \<le> a \<longrightarrow> combine a a = a) \<and>
   v_finished_efficiency (verification (finish_results res)) =
     sqrt (max 0 (v_efficiency (v_zheng (verification (finish_results res)))) *
           max 0 (v_efficiency (v_fan (verification (finish_results res)))))"
proof -
  have comm: "combine a b = combine b a"
    by (simp add: combine_def mult.commute)
  have idem: "0 \<le> a \<longrightarrow> combine a a = a"
    by (simp add: combine_sqrt max_def)
  show ?thesis
    using comm idem
    by (simp add: combine_sqrt finish_results_ver_finished finish_results_ver_entries)
qed

theorem combiner_geometric_mean_witness:
  "(0::real) \<le> 4 \<and> combine 4 4 = 4 \<and> combine 4 9 = combine 9 4"
proof -
  have "(0::real) \<le> 4 \<longrightarrow> combine 4 4 = 4"
    using combiner_geometric_mean [of 4 4] by blast
  moreover have "combine 4 9 = combine 9 4"
    using combiner_geometric_mean [of 4 9] by blast
  ultimately show ?thesis by simp
qed

text \<open>
  Claim C6, as stated: \<open>combine (-1) 4\<close> and \<open>combine 0 4\<close> both equal \<open>2\<close>. The
  clamped factor is \<open>0\<close>, so the product is \<open>0\<close> and so is its root.
\<close>

theorem combiner_clamp_counterexample:
  "combine (-1) 4 \<noteq> 2"
  by (simp add: combine_def)

text \<open>
  Claim C6, amended. The combiner clamps negative inputs before taking the geometric
  mean, so \<open>combine (-1) 4 = combine 0 4\<close>, and both equal \<open>0\<close>.
\<close>

theorem combiner_clamp_zero:
  "combine a b = combine (max 0 a) (max 0 b) \<and>
   combine (-1) 4 = combine 0 4 \<and> combine 0 4 = 0"
  by (simp add: combine_def)

lemma sqrt_sqrt_powr: "0 \<le> x \<Longrightarrow> sqrt (sqrt x) = x powr (1 / 4)"
proof -
  assume x: "0 \<le> x"
  have "sqrt (sqrt x) = (x powr (1 / 2)) powr (1 / 2)"
    using x by (simp add: powr_half_sqrt)
  also have "\<dots> = x powr (1 / 4)"
    by (simp add: powr_powr)
  finally show ?thesis .
qed

text \<open>
  Claim C4. With \<open>e_z\<close> and \<open>e_f\<close> the raw integrated ratios held in the results before
  the final stage, the returned theoretical efficiencies are \<open>sqrt (max 0 e_z)\<close> and
  \<open>sqrt (max 0 e_f)\<close>, and the returned theoretical finished efficiency is
  \<open>sqrt (sqrt (max 0 e_z) * sqrt (max 0 e_f))\<close>, the fourth root of
  \<open>max 0 e_z * max 0 e_f\<close>.
\<close>

theorem theoretical_fourth_root:
  "t_efficiency (t_zheng (theoretical (finish_results res))) =
     sqrt (max 0 (t_efficiency (t_zheng (theoretical res)))) \<and>
   t_efficiency (t_fan (theoretical (finish_results res))) =
     sqrt (max 0 (t_efficiency (t_fan (theoretical res)))) \<and>
   t_finished_efficiency (theoretical (finish_results res)) =
     sqrt (sqrt (max 0 (t_efficiency (t_zheng (theoretical res)))) *
           sqrt (max 0 (t_efficiency (t_fan (theoretical res))))) \<and>
   t_finished_efficiency (theoretical (finish_results res)) =
     (max 0 (t_efficiency (t_zheng (theoretical res))) *
      max 0 (t_efficiency (t_fan (theoretical res)))) powr (1 / 4)"
proof -
  define ez where "ez = max 0 (t_efficiency (t_zheng (theoretical res)))"
  define ef where "ef = max 0 (t_efficiency (t_fan (theoretical res)))"
  have nn: "0 \<le> ez" "0 \<le> ef" by (simp_all add: ez_def ef_def)
  have hz: "ez powr (1 / 2) = sqrt ez" and hf: "ef powr (1 / 2) = sqrt ef"
    using nn by (simp_all add: powr_half_sqrt)
  have fin: "t_finished_efficiency (theoretical (finish_results res)) = sqrt (sqrt ez * sqrt ef)"
  proof -
    have "0 \<le> sqrt ez * 100 * (sqrt ef * 100) / 10000" using nn by simp
    then have "(sqrt ez * 100 * (sqrt ef * 100) / 10000) powr (1 / 2)
        = sqrt (sqrt ez * 100 * (sqrt ef * 100) / 10000)"
      by (rule powr_half_sqrt)
    then show ?thesis
      using nn by (simp add: finish_results_def Let_def hz hf ez_def[symmetric] ef_def[symmetric])
  qed
  have "sqrt (sqrt ez * sqrt ef) = sqrt (sqrt (ez * ef))"
    by (simp add: real_sqrt_mult)
  also have "\<dots> = (ez * ef) powr (1 / 4)"
    using nn by (intro sqrt_sqrt_powr) simp
  finally have q: "sqrt (sqrt ez * sqrt ef) = (ez * ef) powr (1 / 4)" .
  have z: "t_efficiency (t_zheng (theoretical (finish_results res))) = sqrt ez"
    by (simp add: finish_results_def Let_def hz ez_def[symmetric])
  have f: "t_efficiency (t_fan (theoretical (finish_results res))) = sqrt ef"
    by (simp add: finish_results_def Let_def hf ef_def[symmetric])
  show ?thesis
    using z f fin q by (simp add: ez_def ef_def)
qed

section \<open>Properties of get\_experiment\_params\<close>

lemma layered_lookup:
  "(c ++ f ++ v) k =
     (case v k of Some x \<Rightarrow> Some x
      | None \<Rightarrow> (case f k of Some x \<Rightarrow> Some x | None \<Rightarrow> c k))"
  by (simp add: map_add_def split: option.splits)

text \<open>
  Claim C7, as stated: for every index \<open>i < len(variable_params)\<close> the call returns the
  layered dictionary. At \<open>i = -3\<close> with two levels the index is below the length, and
  \<^verbatim>\<open>self.variable_params[index]\<close> raises \<^verbatim>\<open>IndexError\<close>.
\<close>

theorem get_experiment_params_counterexample:
  "(-3 :: int) < int (length (variable_params example_config)) \<and>
   get_experiment_params example_config (-3) = Inl IndexError"
  by (simp add: example_config_def get_experiment_params_def py_getitem_def)

text \<open>
  Claim C7, amended. For every index \<open>i\<close> with \<open>-len \<le> i < len\<close> the call returns
  \<open>common_params\<close> overridden key for key by \<open>fixed_params\<close>, then by the level that
  Python indexing selects (\<open>variable_params[i]\<close>; for \<open>0 \<le> i\<close> the \<open>i\<close>-th level), the
  later layer winning on a shared key. For \<open>i \<ge> len\<close> and for \<open>i < -len\<close> it fails
  with \<^verbatim>\<open>IndexError\<close>.
\<close>

theorem get_experiment_params_layers:
  "(- int (length (variable_params cfg)) \<le> i \<and> i < int (length (variable_params cfg)) \<longrightarrow>
      (\<exists>level. py_getitem (variable_params cfg) i = Inr level \<and>
         get_experiment_params cfg i = Inr (common_params cfg ++ fixed_params cfg ++ level) \<and>
         (\<forall>k. (common_params cfg ++ fixed_params cfg ++ level) k =
            (case level k of Some x \<Rightarrow> Some x
             | None \<Rightarrow> (case fixed_params cfg k of Some x \<Rightarrow> Some x
                         | None \<Rightarrow> common_params cfg k))))) \<and>
   (0 \<le> i \<and> i < int (length (variable_params cfg)) \<longrightarrow>
      get_experiment_params cfg i =
        Inr (common_params cfg ++ fixed_params cfg ++ (variable_params cfg ! nat i))) \<and>
   (i \<ge> int (length (variable_params cfg)) \<or> i < - int (length (variable_params cfg)) \<longrightarrow>
      get_experiment_params cfg i = Inl IndexError)"
  by (auto simp add: get_experiment_params_def py_getitem_def Let_def layered_lookup)

theorem get_experiment_params_layers_witness:
  "get_experiment_params example_config 1 =
     Inr (common_params example_config ++ fixed_params example_config ++
          (variable_params example_config ! nat 1)) \<and>
   get_experiment_params example_config 2 = Inl IndexError \<and>
   get_experiment_params example_config (-3) = Inl IndexError"
proof -
  have len: "int (length (variable_params example_config)) = 2"
    by (simp add: example_config_def)
  have a: "get_experiment_params example_config 1 =
     Inr (common_params example_config ++ fixed_params example_config ++
          (variable_params example_config ! nat 1))"
    using get_experiment_params_layers [of example_config 1] len by simp
  have b: "get_experiment_params example_config 2 = Inl IndexError"
    using get_experiment_params_layers [of example_config 2] len by simp
  have c: "get_experiment_params example_config (-3) = Inl IndexError"
    using get_experiment_params_layers [of example_config "-3"] len by simp
  show ?thesis using a b c by simp
qed

text \<open>
  Claim C10. With \<open>variable_params\<close> non-empty and \<open>-len \<le> i < 0\<close> the call does not
  fail: it returns the layered parameters built from the level \<open>len + i\<close>, which is
  what Python's negative indexing selects; \<open>i = -1\<close> gives the last level.
\<close>

theorem get_experiment_params_negative_index:
  "variable_params cfg \<noteq> [] \<Longrightarrow>
   - int (length (variable_params cfg)) \<le> i \<Longrightarrow> i < 0 \<Longrightarrow>
   get_experiment_params cfg i =
     Inr (common_params cfg ++ fixed_params cfg ++
          (variable_params cfg ! nat (int (length (variable_params cfg)) + i))) \<and>
   get_experiment_params cfg (-1) =
     Inr (common_params cfg ++ fixed_params cfg ++ last (variable_params cfg))"
  by (auto simp add: get_experiment_params_def py_getitem_def Let_def last_conv_nth nat_diff_distrib)

theorem get_experiment_params_negative_index_witness:
  "variable_params example_config \<noteq> [] \<and>
   - int (length (variable_params example_config)) \<le> -2 \<and> (-2 :: int) < 0 \<and>
   get_experiment_params example_config (-2) =
     Inr (common_params example_config ++ fixed_params example_config ++
          (variable_params example_config !
             nat (int (length (variable_params example_config)) + -2)))"
proof -
  have ne: "variable_params example_config \<noteq> []"
    by (simp add: example_config_def)
  have lo: "- int (length (variable_params example_config)) \<le> -2"
    by (simp add: example_config_def)
  show ?thesis
    using ne lo get_experiment_params_negative_index [OF ne lo] by simp
qed

section \<open>Cleaning, time axis and integration\<close>

lemma cleaned_map_option:
  "cleaned (map (\<lambda>x. x \<noteq> None) (map (map_option f) col)) (map (map_option f) col)
     = [f v. Some v \<leftarrow> col]"
proof (induction col)
  case Nil
  show ?case by simp
next
  case (Cons c col)
  show ?case using Cons.IH by (cases c) simp_all
qed

lemma cleaned_decode:
  "cleaned (not_nan (decode initial_v reference_v col)) (decode initial_v reference_v col)
     = [(v - initial_v) / reference_v. Some v \<leftarrow> col]"
  unfolding not_nan_def decode_def by (rule cleaned_map_option)

lemma not_nan_decode: "not_nan (decode initial_v reference_v col) = map (\<lambda>c. c \<noteq> None) col"
  by (simp add: not_nan_def decode_def)

lemma length_valid_values:
  "length [f v. Some v \<leftarrow> col] = length (filter (\<lambda>c. c \<noteq> None) col)"
proof (induction col)
  case Nil
  show ?case by simp
next
  case (Cons c col)
  show ?case using Cons.IH by (cases c) simp_all
qed

lemma mask_select_upt:
  "mask_select (map P xs) (map f [0..<length xs])
     = map f (filter (\<lambda>k. P (xs ! k)) [0..<length xs])"
proof (induction xs rule: rev_induct)
  case Nil
  show ?case by (simp add: mask_select_def)
next
  case (snoc x xs)
  have same: "filter (\<lambda>k. P ((xs @ [x]) ! k)) [0..<length xs]
      = filter (\<lambda>k. P (xs ! k)) [0..<length xs]"
    by (rule filter_cong) (simp_all add: nth_append)
  have "mask_select (map P (xs @ [x])) (map f [0..<length (xs @ [x])])
      = mask_select (map P xs) (map f [0..<length xs]) @ (if P x then [f (length xs)] else [])"
    by (simp add: mask_select_def)
  then show ?case
    using snoc.IH same by simp
qed

lemma comprehension_filter:
  "[f k. k \<leftarrow> xs, P k] = map f (filter P xs)"
  by (induction xs) simp_all

lemma time_cleaned_eq:
  "length col = n \<Longrightarrow>
   mask_select (not_nan (decode initial_v reference_v col)) (time_array n time_once)
     = [real k * time_once. k \<leftarrow> [0..<n], col ! k \<noteq> None]"
  by (auto simp add: comprehension_filter not_nan_decode time_array_def mask_select_upt)


lemma length_column: "length (column j df) = length (rows df)"
  by (simp add: column_def)







section \<open>The verification method on one run\<close>



lemmas eval_defs = truncate_df_def empty_df_def column_def
  cell_at_def decode_def time_array_def not_nan_def np_any_def mask_select_def
  output_power_of_def np_mean_def Let_def



section \<open>The reconstructed time axis\<close>

lemma ncols_truncate: "ncols (truncate_df p df) = ncols df"
  by (simp add: truncate_df_def head_df_def split: option.splits)

lemma column_truncate:
  "column j (truncate_df p df) =
     (case p of None \<Rightarrow> column j df
      | Some n \<Rightarrow> if n > 0 then take (nat n) (column j df) else column j df)"
  by (simp add: truncate_df_def head_df_def column_def take_map split: option.splits)

lemma empty_df_column: "empty_df d = (column j d = [] \<or> ncols d = 0)"
  by (simp add: empty_df_def column_def)

text \<open>
  Claim C2, as stated: the \<open>k\<close>-th surviving sample is paired with the time
  \<open>k / sampling_freq\<close>. With the middle row of three unparseable and
  \<open>sampling_freq = 1\<close>, the two surviving samples are paired with the times \<open>0\<close> and
  \<open>2\<close>, not \<open>0\<close> and \<open>1\<close>.
\<close>

theorem time_axis_counterexample:
  "map_option (pd_time \<circ> plot) (calculate_simple_efficiency (Some gap_table) 1 0 1 1 1 None)
     = Some [0, 2] \<and>
   map_option (pd_current \<circ> plot) (calculate_simple_efficiency (Some gap_table) 1 0 1 1 1 None)
     = Some [1, 1]"
  by (simp add: calculate_simple_efficiency_def eval_defs gap_table_def upt_rec)


lemma simple_efficiency_reads_column2:
  assumes "ncols df' = ncols df" and "column 2 df' = column 2 df"
  shows "calculate_simple_efficiency (Some df') reference_v initial_v r_load power_input
           sampling_freq points_to_process =
         calculate_simple_efficiency (Some df) reference_v initial_v r_load power_input
           sampling_freq points_to_process"
proof -
  have c2: "column 2 (truncate_df points_to_process df')
      = column 2 (truncate_df points_to_process df)"
    by (simp add: column_truncate assms(2) split: option.splits)
  have l0: "length (column 0 d) = length (column 2 d)" for d
    by (simp add: length_column)
  show ?thesis
    unfolding calculate_simple_efficiency_def
    by (simp add: Let_def empty_df_column[where j = 2] l0 ncols_truncate c2 assms(1))
qed


lemma single_efficiency_reads_column2:
  assumes "ncols df' = ncols df" and "column 2 df' = column 2 df"
  shows "calculate_single_efficiency (Some df') reference_v initial_v r_load power_input
           sampling_freq points_to_process =
         calculate_single_efficiency (Some df) reference_v initial_v r_load power_input
           sampling_freq points_to_process"
proof -
  have c2: "column 2 (truncate_df points_to_process df')
      = column 2 (truncate_df points_to_process df)"
    by (simp add: column_truncate assms(2) split: option.splits)
  have l0: "length (rows d) = length (column 2 d)" for d
    by (simp add: length_column)
  show ?thesis
    unfolding calculate_single_efficiency_def
    by (simp add: Let_def empty_df_column[where j = 2] l0 ncols_truncate c2 assms(1))
qed


text \<open>
  Claim C2, amended. The time paired with a surviving sample is its row index in the
  (truncated) table, before filtering, over \<open>sampling_freq\<close>: the time axis is built over
  all rows and masked with the samples, so two consecutive surviving samples are
  separated by one period more than the number of rows dropped between them. No time
  value is read from column 0: a table with the same number of columns and the same
  AIN2 column gives the same result, whatever its other columns hold.
\<close>

theorem time_axis_over_table_rows:
  fixes df :: table and points_to_process :: "int option" and sampling_freq :: real
  defines "d \<equiv> truncate_df points_to_process df"
  defines "row_times \<equiv>
    [real k / sampling_freq. k \<leftarrow> [0..<length (rows d)], column 2 d ! k \<noteq> None]"
  assumes ref: "reference_v \<noteq> 0"
  shows
    "(calculate_simple_efficiency (Some df) reference_v initial_v r_load power_input
        sampling_freq points_to_process = Some res \<longrightarrow>
        pd_time (plot res) = row_times \<and>
        (\<forall>df'. ncols df' = ncols df \<and> column 2 df' = column 2 df \<longrightarrow>
           calculate_simple_efficiency (Some df') reference_v initial_v r_load power_input
             sampling_freq points_to_process = Some res)) \<and>
     (calculate_single_efficiency (Some df) reference_v initial_v r_load power_input
        sampling_freq points_to_process = Some res' \<longrightarrow>
        pd_time (s_plot res') = row_times \<and>
        (\<forall>df'. ncols df' = ncols df \<and> column 2 df' = column 2 df \<longrightarrow>
           calculate_single_efficiency (Some df') reference_v initial_v r_load power_input
             sampling_freq points_to_process = Some res'))"
proof -
  have tm: "mask_select (not_nan (decode initial_v reference_v (column 2 d)))
              (time_array (length (rows d)) (1 / sampling_freq)) = row_times"
    unfolding row_times_def
    by (simp add: length_column time_cleaned_eq comprehension_filter)
  have a: "pd_time (plot res) = row_times"
    if "calculate_simple_efficiency (Some df) reference_v initial_v r_load power_input
        sampling_freq points_to_process = Some res"
    using that tm[unfolded d_def]
    by (auto simp add: calculate_simple_efficiency_def Let_def length_column split: if_splits)
  have b: "pd_time (s_plot res') = row_times"
    if "calculate_single_efficiency (Some df) reference_v initial_v r_load power_input
        sampling_freq points_to_process = Some res'"
    using that tm[unfolded d_def]
    by (auto simp add: calculate_single_efficiency_def Let_def split: if_splits)
  have c: "calculate_simple_efficiency (Some df') reference_v initial_v r_load power_input
             sampling_freq points_to_process =
           calculate_simple_efficiency (Some df) reference_v initial_v r_load power_input
             sampling_freq points_to_process"
    if "ncols df' = ncols df \<and> column 2 df' = column 2 df" for df'
    using that by (intro simple_efficiency_reads_column2) simp_all
  have e: "calculate_single_efficiency (Some df') reference_v initial_v r_load power_input
             sampling_freq points_to_process =
           calculate_single_efficiency (Some df) reference_v initial_v r_load power_input
             sampling_freq points_to_process"
    if "ncols df' = ncols df \<and> column 2 df' = column 2 df" for df'
    using that by (intro single_efficiency_reads_column2) simp_all
  show ?thesis
  proof (intro conjI impI allI)
    assume "calculate_simple_efficiency (Some df) reference_v initial_v r_load power_input
        sampling_freq points_to_process = Some res"
    then show "pd_time (plot res) = row_times" by (rule a)
  next
    fix df'
    assume r: "calculate_simple_efficiency (Some df) reference_v initial_v r_load power_input
        sampling_freq points_to_process = Some res"
      and h: "ncols df' = ncols df \<and> column 2 df' = column 2 df"
    show "calculate_simple_efficiency (Some df') reference_v initial_v r_load power_input
             sampling_freq points_to_process = Some res"
      using c[OF h] r by (rule trans)
  next
    assume "calculate_single_efficiency (Some df) reference_v initial_v r_load power_input
        sampling_freq points_to_process = Some res'"
    then show "pd_time (s_plot res') = row_times" by (rule b)
  next
    fix df'
    assume r: "calculate_single_efficiency (Some df) reference_v initial_v r_load power_input
        sampling_freq points_to_process = Some res'"
      and h: "ncols df' = ncols df \<and> column 2 df' = column 2 df"
    show "calculate_single_efficiency (Some df') reference_v initial_v r_load power_input
             sampling_freq points_to_process = Some res'"
      using e[OF h] r by (rule trans)
  qed
qed


theorem time_axis_over_table_rows_witness:
  "(1 :: real) \<noteq> 0 \<and>
   (\<exists>res. calculate_simple_efficiency (Some gap_table) 1 0 1 1 1 None = Some res \<and>
      pd_time (plot res) = [0, 2] \<and>
      calculate_simple_efficiency (Some gap_table_retimed) 1 0 1 1 1 None = Some res)"
proof -
  obtain res where r: "calculate_simple_efficiency (Some gap_table) 1 0 1 1 1 None = Some res"
    by (simp add: calculate_simple_efficiency_def eval_defs gap_table_def upt_rec)
  have same: "ncols gap_table_retimed = ncols gap_table \<and>
      column 2 gap_table_retimed = column 2 gap_table"
    by (simp add: gap_table_def gap_table_retimed_def column_def cell_at_def)
  have col: "column 2 (truncate_df None gap_table) = [Some 1, None, Some 1]"
    by (simp add: truncate_df_def gap_table_def column_def cell_at_def)
  have rws: "length (rows (truncate_df None gap_table)) = 3"
    by (simp add: truncate_df_def gap_table_def)
  have ref: "(1 :: real) \<noteq> 0" by simp
  note t = time_axis_over_table_rows [where df = gap_table and points_to_process = None
      and sampling_freq = 1 and reference_v = 1 and initial_v = 0 and r_load = 1
      and power_input = 1 and res = res, OF ref]
  have tm: "pd_time (plot res) = [0, 2]"
    using t r by (simp add: col rws upt_rec)
  have other: "calculate_simple_efficiency (Some gap_table_retimed) 1 0 1 1 1 None = Some res"
    using t r same by blast
  show ?thesis
    using r tm other by simp
qed

section \<open>The constant-current scenario\<close>

text \<open>
  Claim C5, as stated: ten rows decoding to a constant \<open>1.0\<close> A with \<open>r_load = 2\<close>,
  \<open>sampling_freq = 100\<close> and \<open>power_input = 1\<close> give an output energy of \<open>0.2\<close> J and an
  efficiency of \<open>2.0\<close>. The trapezoidal rule integrates over the nine intervals between
  the ten samples: the output energy is \<open>0.18\<close> J.
\<close>

theorem constant_current_counterexample:
  "map_option output_energy
     (calculate_simple_efficiency (Some constant_table) 1 0 2 1 100 None) = Some (9 / 50) \<and>
   map_option output_energy
     (calculate_simple_efficiency (Some constant_table) 1 0 2 1 100 None) \<noteq> Some (1 / 5) \<and>
   map_option efficiency
     (calculate_simple_efficiency (Some constant_table) 1 0 2 1 100 None) \<noteq> Some 2"
  by (simp add: calculate_simple_efficiency_def eval_defs constant_table_def upt_rec)

lemma replicate_ten: "replicate 10 x = [x, x, x, x, x, x, x, x, x, x]"
  by (simp add: numeral_eq_Suc)

text \<open>
  Claim C5, amended. For a table of ten rows with at least three columns whose AIN2
  column decodes to \<open>1.0\<close> A at every sample, with \<open>r_load = 2\<close>,
  \<open>sampling_freq = 100\<close> and \<open>power_input = 1\<close>, the verification computation returns
  output energy \<open>0.18\<close> J, input energy \<open>0.1\<close> J and efficiency \<open>1.8\<close>.
\<close>

theorem constant_current_scenario:
  assumes cols: "3 \<le> ncols df"
    and ref: "reference_v \<noteq> 0"
    and const: "decode initial_v reference_v (column 2 df) = replicate 10 (Some 1)"
  shows "\<exists>res. calculate_simple_efficiency (Some df) reference_v initial_v 2 1 100 None
           = Some res \<and>
         output_energy res = 9 / 50 \<and> input_energy res = 1 / 10 \<and> efficiency res = 9 / 5"
proof -
  have "length (decode initial_v reference_v (column 2 df)) = length (rows df)"
    by (simp add: decode_def column_def)
  then have len: "length (rows df) = 10"
    by (simp add: const)
  then have ne: "rows df \<noteq> []" by auto
  have c3: "\<not> ncols df < 3" "ncols df \<noteq> 0" using cols by simp_all
  have c0: "column 0 df \<noteq> []" using ne by (simp add: column_def)
  show ?thesis
    unfolding calculate_simple_efficiency_def
    using ne c3 c0
    by (simp add: Let_def truncate_df_def empty_df_def length_column len const replicate_ten
        not_nan_def np_any_def mask_select_def time_array_def output_power_of_def upt_rec)
qed

theorem constant_current_scenario_witness:
  "3 \<le> ncols constant_table \<and> (1 :: real) \<noteq> 0 \<and>
   decode 0 1 (column 2 constant_table) = replicate 10 (Some 1) \<and>
   (\<exists>res. calculate_simple_efficiency (Some constant_table) 1 0 2 1 100 None = Some res \<and>
      output_energy res = 9 / 50 \<and> input_energy res = 1 / 10 \<and> efficiency res = 9 / 5)"
proof -
  have c: "3 \<le> ncols constant_table" by (simp add: constant_table_def)
  have r: "(1 :: real) \<noteq> 0" by simp
  have d: "decode 0 1 (column 2 constant_table) = replicate 10 (Some 1)"
    by (simp add: constant_table_def decode_def column_def cell_at_def replicate_ten)
  show ?thesis
    using c r d constant_current_scenario [OF c r d] by simp
qed

section \<open>Too few samples and empty tables in calculate\_unified\_efficiencies\<close>

lemma length_cleaned_decode:
  "length (cleaned (not_nan (decode initial_v reference_v col)) (decode initial_v reference_v col))
     = length (filter (\<lambda>c. c \<noteq> None) col)"
  by (simp add: cleaned_decode length_valid_values)

lemma length_cleaned_pair:
  "length (cleaned (map2 (\<and>) (map (\<lambda>c. c \<noteq> None) xs) (map (\<lambda>c. c \<noteq> None) ys))
             (map (map_option f) xs))
     = length (filter (\<lambda>(a, b). a \<noteq> None \<and> b \<noteq> None) (zip xs ys))"
proof (induction xs arbitrary: ys)
  case Nil
  show ?case by simp
next
  case (Cons x xs)
  show ?case
  proof (cases ys)
    case Nil
    then show ?thesis by simp
  next
    case (Cons y ys')
    then show ?thesis
      using Cons.IH [of ys'] by (cases x) auto
  qed
qed

lemma verification_pass_few:
  assumes "length (filter (\<lambda>c. c \<noteq> None) (column 2 df)) < 2"
  shows "verification_pass df time_axis time_once reference_v initial_v r_load power_input entry
           = entry"
  using assms
  by (simp add: verification_pass_def Let_def length_cleaned_decode)

lemma theoretical_pass_few:
  assumes "length (filter (\<lambda>(a, b). a \<noteq> None \<and> b \<noteq> None)
                     (zip (column 6 df) (column 7 df))) < 2"
  shows "theoretical_pass df time_axis reference_v initial_v r_load drive_v entry = entry"
proof -
  have eq: "length (cleaned (map2 (\<and>) (not_nan (decode initial_v reference_v (column 6 df)))
                                     (not_nan (decode initial_v reference_v (column 7 df))))
                  (decode initial_v reference_v (column 6 df)))
      = length (filter (\<lambda>(a, b). a \<noteq> None \<and> b \<noteq> None) (zip (column 6 df) (column 7 df)))"
    unfolding not_nan_decode unfolding decode_def by (rule length_cleaned_pair)
  have "length (cleaned (map2 (\<and>) (not_nan (decode initial_v reference_v (column 6 df)))
                                     (not_nan (decode initial_v reference_v (column 7 df))))
                  (decode initial_v reference_v (column 6 df))) < 2"
    using assms by (simp only: eq)
  then show ?thesis
    by (simp add: theoretical_pass_def Let_def)
qed


lemma polarity_pass_ver_few:
  assumes "length (filter (\<lambda>c. c \<noteq> None) (column 2 df)) < 2"
  shows "v_efficiency (fst (polarity_pass df time_once reference_v initial_v r_load drive_v
            power_input (default_ver_entry, default_theo_entry))) = 0 \<and>
         v_plot_data (fst (polarity_pass df time_once reference_v initial_v r_load drive_v
            power_input (default_ver_entry, default_theo_entry)))
           = \<lparr>pd_time = [], pd_current = [], pd_power = []\<rparr>"
  by (simp add: polarity_pass_def Let_def verification_pass_few[OF assms] default_ver_entry_def)

lemma polarity_pass_theo_few:
  assumes "length (filter (\<lambda>(a, b). a \<noteq> None \<and> b \<noteq> None)
                     (zip (column 6 df) (column 7 df))) < 2"
  shows "t_efficiency (snd (polarity_pass df time_once reference_v initial_v r_load drive_v
            power_input (default_ver_entry, default_theo_entry))) = 0 \<and>
         t_plot_data (snd (polarity_pass df time_once reference_v initial_v r_load drive_v
            power_input (default_ver_entry, default_theo_entry)))
           = \<lparr>tp_time = [], tp_output_current = [], tp_input_current = [],
              tp_output_power = [], tp_input_power = []\<rparr>"
  by (simp add: polarity_pass_def Let_def theoretical_pass_few[OF assms] default_theo_entry_def)

lemma finish_results_theo_entries:
  "t_plot_data (t_zheng (theoretical (finish_results res)))
     = t_plot_data (t_zheng (theoretical res)) \<and>
   t_plot_data (t_fan (theoretical (finish_results res)))
     = t_plot_data (t_fan (theoretical res)) \<and>
   t_stats (t_fan (theoretical (finish_results res))) = t_stats (t_fan (theoretical res)) \<and>
   t_efficiency (t_zheng (theoretical (finish_results res)))
     = (max 0 (t_efficiency (t_zheng (theoretical res)))) powr (1 / 2) \<and>
   t_efficiency (t_fan (theoretical (finish_results res)))
     = (max 0 (t_efficiency (t_fan (theoretical res)))) powr (1 / 2)"
  by (simp add: finish_results_def Let_def)

lemma unified_value:
  fixes zheng fan :: table and points_zheng points_fan :: "int option"
    and sampling_freq reference_v initial_v r_load drive_v power_input :: real
  defines "zp \<equiv> polarity_pass (truncate_df points_zheng zheng) (1 / sampling_freq)
                   reference_v initial_v r_load drive_v power_input
                   (default_ver_entry, default_theo_entry)"
  defines "fp \<equiv> (if \<not> empty_df (truncate_df points_fan fan)
                  then polarity_pass (truncate_df points_fan fan) (1 / sampling_freq)
                         reference_v initial_v r_load drive_v power_input
                         (default_ver_entry, default_theo_entry)
                  else (default_ver_entry, default_theo_entry))"
  assumes "sampling_freq \<noteq> 0" and "\<not> empty_df (truncate_df points_zheng zheng)"
  shows "calculate_unified_efficiencies (Some zheng) (Some fan) reference_v initial_v r_load
           drive_v power_input sampling_freq points_zheng points_fan =
         Some (finish_results
           \<lparr>verification = \<lparr>v_zheng = fst zp, v_fan = fst fp, v_finished_efficiency = 0\<rparr>,
            theoretical = \<lparr>t_zheng = snd zp, t_fan = snd fp, t_finished_efficiency = 0\<rparr>,
            comparison = \<lparr>zheng_diff = 0, fan_diff = 0, finished_diff = 0\<rparr>\<rparr>)"
  using assms(3,4) unfolding zp_def fp_def
  by (simp add: calculate_unified_efficiencies_def Let_def case_prod_beta)



lemma simple_efficiency_few:
  assumes "length (filter (\<lambda>c. c \<noteq> None) (column 2 (truncate_df points_to_process df))) < 2"
  shows "calculate_simple_efficiency (Some df) reference_v initial_v r_load power_input
           sampling_freq points_to_process = None"
  using assms by (simp add: calculate_simple_efficiency_def Let_def length_cleaned_decode)




text \<open>
  Claim C8, as stated: every run with fewer than two valid samples still yields a
  defined result with that contribution at its default. A table with one valid AIN2
  sample makes \<^verbatim>\<open>calculate_simple_efficiency\<close> return \<open>None\<close>, and a forward table with
  no rows (no valid sample at all) makes \<^verbatim>\<open>calculate_unified_efficiencies\<close> return
  \<open>None\<close>.
\<close>

theorem few_samples_counterexample:
  "length (filter (\<lambda>c. c \<noteq> None) (column 2 one_valid_table)) = 1 \<and>
   calculate_simple_efficiency (Some one_valid_table) 1 0 1 1 1 None = None \<and>
   length (filter (\<lambda>c. c \<noteq> None) (column 2 empty_table)) = 0 \<and>
   calculate_unified_efficiencies (Some empty_table) (Some gap_table) 1 0 1 1 1 1 None None
     = None"
  by (simp add: calculate_simple_efficiency_def calculate_unified_efficiencies_def eval_defs
      one_valid_table_def empty_table_def upt_rec)

text \<open>
  Claim C8, amended. In \<^verbatim>\<open>calculate_unified_efficiencies\<close>, when both files are read,
  \<open>sampling_freq\<close> is not zero and the forward table is not empty after truncation, the
  call returns a result, and for each polarity and methodology with fewer than two
  valid aligned samples that contribution keeps efficiency \<open>0\<close> and empty plot arrays.
  \<^verbatim>\<open>calculate_simple_efficiency\<close> on such a run returns \<open>None\<close> instead.
\<close>

theorem few_samples_keep_defaults:
  fixes zheng fan :: table and points_zheng points_fan :: "int option"
    and sampling_freq reference_v initial_v r_load drive_v power_input :: real
  defines "zd \<equiv> truncate_df points_zheng zheng"
  defines "fd \<equiv> truncate_df points_fan fan"
  defines "no_plot \<equiv> \<lparr>pd_time = [], pd_current = [], pd_power = []\<rparr>"
  defines "no_theo_plot \<equiv> \<lparr>tp_time = [], tp_output_current = [], tp_input_current = [],
                             tp_output_power = [], tp_input_power = []\<rparr>"
  assumes freq: "sampling_freq \<noteq> 0"
    and ref: "reference_v \<noteq> 0"
    and ne: "\<not> empty_df zd"
  shows "\<exists>res.
     calculate_unified_efficiencies (Some zheng) (Some fan) reference_v initial_v r_load
       drive_v power_input sampling_freq points_zheng points_fan = Some res \<and>
     (length (filter (\<lambda>c. c \<noteq> None) (column 2 zd)) < 2 \<longrightarrow>
        v_efficiency (v_zheng (verification res)) = 0 \<and>
        v_plot_data (v_zheng (verification res)) = no_plot) \<and>
     (length (filter (\<lambda>(a, b). a \<noteq> None \<and> b \<noteq> None) (zip (column 6 zd) (column 7 zd))) < 2
        \<longrightarrow>
        t_efficiency (t_zheng (theoretical res)) = 0 \<and>
        t_plot_data (t_zheng (theoretical res)) = no_theo_plot) \<and>
     (length (filter (\<lambda>c. c \<noteq> None) (column 2 fd)) < 2 \<longrightarrow>
        v_efficiency (v_fan (verification res)) = 0 \<and>
        v_plot_data (v_fan (verification res)) = no_plot) \<and>
     (length (filter (\<lambda>(a, b). a \<noteq> None \<and> b \<noteq> None) (zip (column 6 fd) (column 7 fd))) < 2
        \<longrightarrow>
        t_efficiency (t_fan (theoretical res)) = 0 \<and>
        t_plot_data (t_fan (theoretical res)) = no_theo_plot) \<and>
     (length (filter (\<lambda>c. c \<noteq> None) (column 2 zd)) < 2 \<longrightarrow>
        calculate_simple_efficiency (Some zheng) reference_v initial_v r_load power_input
          sampling_freq points_zheng = None)"
proof -
  define zp where "zp = polarity_pass zd (1 / sampling_freq) reference_v initial_v r_load
    drive_v power_input (default_ver_entry, default_theo_entry)"
  define fp where "fp = (if \<not> empty_df fd
    then polarity_pass fd (1 / sampling_freq) reference_v initial_v r_load drive_v power_input
           (default_ver_entry, default_theo_entry)
    else (default_ver_entry, default_theo_entry))"
  define res where "res = finish_results
    \<lparr>verification = \<lparr>v_zheng = fst zp, v_fan = fst fp, v_finished_efficiency = 0\<rparr>,
     theoretical = \<lparr>t_zheng = snd zp, t_fan = snd fp, t_finished_efficiency = 0\<rparr>,
     comparison = \<lparr>zheng_diff = 0, fan_diff = 0, finished_diff = 0\<rparr>\<rparr>"
  have val: "calculate_unified_efficiencies (Some zheng) (Some fan) reference_v initial_v
       r_load drive_v power_input sampling_freq points_zheng points_fan = Some res"
    unfolding res_def zp_def fp_def zd_def fd_def
    using freq ne[unfolded zd_def] by (rule unified_value)
  have zv: "v_efficiency (v_zheng (verification res)) = 0 \<and>
        v_plot_data (v_zheng (verification res)) = no_plot"
    if "length (filter (\<lambda>c. c \<noteq> None) (column 2 zd)) < 2"
    using polarity_pass_ver_few [OF that]
    by (simp add: res_def zp_def no_plot_def finish_results_ver_entries)
  have zt: "t_efficiency (t_zheng (theoretical res)) = 0 \<and>
        t_plot_data (t_zheng (theoretical res)) = no_theo_plot"
    if "length (filter (\<lambda>(a, b). a \<noteq> None \<and> b \<noteq> None) (zip (column 6 zd) (column 7 zd))) < 2"
    using polarity_pass_theo_few [OF that]
    by (simp add: res_def zp_def no_theo_plot_def finish_results_theo_entries)
  have fv: "v_efficiency (v_fan (verification res)) = 0 \<and>
        v_plot_data (v_fan (verification res)) = no_plot"
    if "length (filter (\<lambda>c. c \<noteq> None) (column 2 fd)) < 2"
  proof (cases "empty_df fd")
    case True
    then show ?thesis
      by (simp add: res_def fp_def no_plot_def finish_results_ver_entries default_ver_entry_def)
  next
    case False
    then show ?thesis
      using polarity_pass_ver_few [OF that]
      by (simp add: res_def fp_def no_plot_def finish_results_ver_entries)
  qed
  have ft: "t_efficiency (t_fan (theoretical res)) = 0 \<and>
        t_plot_data (t_fan (theoretical res)) = no_theo_plot"
    if "length (filter (\<lambda>(a, b). a \<noteq> None \<and> b \<noteq> None) (zip (column 6 fd) (column 7 fd))) < 2"
  proof (cases "empty_df fd")
    case True
    then show ?thesis
      by (simp add: res_def fp_def no_theo_plot_def finish_results_theo_entries
          default_theo_entry_def)
  next
    case False
    then show ?thesis
      using polarity_pass_theo_few [OF that]
      by (simp add: res_def fp_def no_theo_plot_def finish_results_theo_entries)
  qed
  have sm: "calculate_simple_efficiency (Some zheng) reference_v initial_v r_load power_input
          sampling_freq points_zheng = None"
    if "length (filter (\<lambda>c. c \<noteq> None) (column 2 zd)) < 2"
    using that unfolding zd_def by (rule simple_efficiency_few)
  show ?thesis
    using val zv zt fv ft sm by blast
qed


theorem few_samples_keep_defaults_witness:
  "(1 :: real) \<noteq> 0 \<and> \<not> empty_df (truncate_df None one_valid_table) \<and>
   length (filter (\<lambda>c. c \<noteq> None) (column 2 (truncate_df None one_valid_table))) < 2 \<and>
   (\<exists>res. calculate_unified_efficiencies (Some one_valid_table) (Some gap_table) 1 0 1 1 1 1
             None None = Some res \<and>
      v_efficiency (v_zheng (verification res)) = 0 \<and>
      v_plot_data (v_zheng (verification res))
        = \<lparr>pd_time = [], pd_current = [], pd_power = []\<rparr> \<and>
      t_efficiency (t_zheng (theoretical res)) = 0) \<and>
   calculate_simple_efficiency (Some one_valid_table) 1 0 1 1 1 None = None"
proof -
  have f: "(1 :: real) \<noteq> 0" by simp
  have ne: "\<not> empty_df (truncate_df None one_valid_table)"
    by (simp add: empty_df_def truncate_df_def one_valid_table_def)
  have few: "length (filter (\<lambda>c. c \<noteq> None) (column 2 (truncate_df None one_valid_table))) < 2"
    by (simp add: truncate_df_def one_valid_table_def column_def cell_at_def)
  have few_theo: "length (filter (\<lambda>(a, b). a \<noteq> None \<and> b \<noteq> None)
      (zip (column 6 (truncate_df None one_valid_table))
           (column 7 (truncate_df None one_valid_table)))) < 2"
    by (simp add: truncate_df_def one_valid_table_def column_def cell_at_def)
  note t = few_samples_keep_defaults [where zheng = one_valid_table and points_zheng = None
      and fan = gap_table and points_fan = None and sampling_freq = 1 and reference_v = 1
      and initial_v = 0 and r_load = 1 and drive_v = 1 and power_input = 1, OF f f ne]
  have a: "\<exists>res. calculate_unified_efficiencies (Some one_valid_table) (Some gap_table) 1 0 1 1 1 1
             None None = Some res \<and>
      v_efficiency (v_zheng (verification res)) = 0 \<and>
      v_plot_data (v_zheng (verification res))
        = \<lparr>pd_time = [], pd_current = [], pd_power = []\<rparr> \<and>
      t_efficiency (t_zheng (theoretical res)) = 0"
    using t few few_theo by blast
  have b: "calculate_simple_efficiency (Some one_valid_table) 1 0 1 1 1 None = None"
    using t few by blast
  show ?thesis
    using f ne few a b by simp
qed

end
